theory Spec2Isabelle
  imports Main
begin

section \<open>JWT auxiliary data extraction (internal/auxdata/jwt.go)\<close>

text \<open>
  A shallow embedding of \<^verbatim>\<open>internal/auxdata/jwt.go\<close>. The functions of the file
  (\<^verbatim>\<open>newJWTHelper\<close>, \<^verbatim>\<open>extract\<close>, \<^verbatim>\<open>parseOptions\<close>, \<^verbatim>\<open>doExtract\<close>,
  \<^verbatim>\<open>newLocalKeySet\<close>, \<^verbatim>\<open>newRemoteKeySet\<close> and the \<^verbatim>\<open>keySet\<close> methods) are
  translated one to one. The third-party packages the file calls (gcache, jwx's jwt and
  jwk, encoding/base64, util.ToStructPB, the clock) are parameters, collected in the
  record \<open>lib\<close>: every theorem holds for whatever those packages compute. Calls on the
  collaborators are also logged, in order, as a list of events, so that "no probe",
  "no insert" and "before any parsing" are statements about that list. Tracing spans
  are not modelled.
\<close>

subsection \<open>Time (package time)\<close>

text \<open>
  A \<^verbatim>\<open>time.Time\<close> is an instant, here the nanoseconds since the zero Time; a
  \<^verbatim>\<open>time.Duration\<close> is an int64 count of nanoseconds. \<^verbatim>\<open>Time.Sub\<close> saturates at the
  largest and smallest Duration, and \<^verbatim>\<open>time.Until(t)\<close> is \<^verbatim>\<open>t.Sub(time.Now())\<close>.
\<close>

type_synonym Time = int
type_synonym Duration = int

definition zeroTime :: Time where
  "zeroTime = 0"

definition maxDuration :: Duration where
  "maxDuration = 2 ^ 63 - 1"

definition minDuration :: Duration where
  "minDuration = - (2 ^ 63)"

definition time_Sub :: "Time \<Rightarrow> Time \<Rightarrow> Duration" where
  "time_Sub t u =
     (if t - u > maxDuration then maxDuration
      else if t - u < minDuration then minDuration
      else t - u)"

definition time_Until :: "Time \<Rightarrow> Time \<Rightarrow> Duration" where
  "time_Until now t = time_Sub t now"

definition Minute :: Duration where
  "Minute = 60 * 1000000000"

definition defaultCacheExpiry :: Duration where
  "defaultCacheExpiry = 10 * Minute"

subsection \<open>Strings (package strings)\<close>

text \<open>\<^verbatim>\<open>strings.LastIndexByte(s, c)\<close>: the index of the last \<open>c\<close> in \<open>s\<close>, or \<open>-1\<close>.\<close>

fun LastIndexByte :: "string \<Rightarrow> char \<Rightarrow> int" where
  "LastIndexByte [] c = - 1"
| "LastIndexByte (x # xs) c =
     (let r = LastIndexByte xs c
      in if r \<ge> 0 then r + 1 else if x = c then 0 else - 1)"

subsection \<open>Data\<close>

text \<open>A request context, opaque here.\<close>

datatype "context" = Ctx nat

text \<open>Key material (\<^verbatim>\<open>jwk.Set\<close>), opaque here.\<close>

datatype jwkSet = JwkSet string

text \<open>
  The errors of the file, by their codes, those of the packages it calls
  (\<open>ExternalError\<close>) and the run-time panic of a method call on a nil cache.
\<close>

datatype error =
    errNilLocalKeySet
  | errNoKeySetToVerify
  | ErrKeySetNotFound string
  | ErrRetrieveKeySet error
  | ErrParseJWT error
  | ErrBase64Decode error
  | ErrParseKeyData error
  | ErrReadKeySet string error
  | ExternalError string
  | PanicNilCache

text \<open>A Go value of type \<^verbatim>\<open>interface{}\<close>, as far as claim keys and values need it
  (\<open>AOther\<close>: a value of any other dynamic type).\<close>

datatype any = AString string | AInt int | ABool bool | ANil | AOther nat

text \<open>A \<^verbatim>\<open>structpb.Value\<close>.\<close>

datatype pbValue = PbString string | PbNumber int | PbBool bool | PbNull

datatype ParseOption = WithVerify bool | WithValidate bool | WithKeySet jwkSet

text \<open>
  What the file reads of a parsed \<^verbatim>\<open>jwt.Token\<close>: \<^verbatim>\<open>Expiration()\<close> (the zero Time
  when the token has no expiry) and the key-value pairs \<^verbatim>\<open>Iterate\<close> delivers, in the
  order it delivers them.
\<close>

record jwtToken =
  Expiration :: Time
  Pairs :: "(any \<times> any) list"

text \<open>\<^verbatim>\<open>requestv1.AuxData_JWT\<close>.\<close>

record AuxData_JWT =
  Token :: string
  KeySetId :: string

text \<open>
  \<^verbatim>\<open>type localKeySet func(context.Context) (jwk.Set, error)\<close>: a function value, or
  nil. \<^verbatim>\<open>remoteKeySet\<close> holds the shared \<^verbatim>\<open>jwk.Cache\<close> and a URL; the shared cache is
  the \<open>jwk_Get\<close> of \<open>lib\<close>.
\<close>

type_synonym localKeySet = "(context \<Rightarrow> error + jwkSet) option"

datatype keySet = RemoteKS string | LocalKS localKeySet

text \<open>The configuration (\<^verbatim>\<open>JWTConf\<close> and its parts), with the fields the file reads.\<close>

record LocalSource =
  Data :: string
  File :: string
  PEM :: bool

record RemoteSource =
  URL :: string
  RefreshInterval :: Duration

record KeySetConf =
  ID :: string
  Remote :: "RemoteSource option"
  Local :: "LocalSource option"

record JWTConf =
  KeySets :: "KeySetConf list"
  DisableVerification :: bool
  CacheSize :: int

text \<open>
  \<^verbatim>\<open>jwtHelper\<close>. The Go map \<^verbatim>\<open>keySets\<close> is an association list with one pair for
  each key (\<open>newJWTHelper\<close> builds it so); the nil map is the empty list. \<^verbatim>\<open>cache\<close> is
  \<open>None\<close> for nil, or the state of the gcache object.
\<close>

record 'c jwtHelper =
  keySets :: "(string \<times> keySet) list"
  cache :: "'c option"
  verify :: bool

text \<open>
  The packages the file calls. \<open>GetIFPresent c k\<close> answers whether \<open>err == nil\<close> and
  gives the cache's next state; \<open>Now\<close> is the clock reading of \<^verbatim>\<open>time.Until\<close>.
\<close>

record 'c lib =
  mkCache :: "int \<Rightarrow> 'c"
  GetIFPresent :: "'c \<Rightarrow> string \<Rightarrow> bool \<times> 'c"
  SetWithExpire :: "'c \<Rightarrow> string \<Rightarrow> Duration \<Rightarrow> 'c"
  ParseString :: "string \<Rightarrow> ParseOption list \<Rightarrow> error + jwtToken"
  ToStructPB :: "any \<Rightarrow> error + pbValue"
  Now :: Time
  DecodeString :: "string \<Rightarrow> error + string"
  jwk_Parse :: "string \<Rightarrow> bool \<Rightarrow> error + jwkSet"
  jwk_ReadFile :: "string \<Rightarrow> bool \<Rightarrow> error + jwkSet"
  jwk_Get :: "context \<Rightarrow> string \<Rightarrow> error + jwkSet"

text \<open>The calls a run makes on its collaborators, in order.\<close>

datatype event =
    CacheGet string
  | MetricCacheHit
  | MetricCacheMiss
  | CacheSet string Duration
  | KeySetCall keySet
  | ParseCall string "ParseOption list"
  | Warn string "any \<times> any"

subsection \<open>Key sets\<close>

definition newLocalKeySet :: "'c lib \<Rightarrow> LocalSource \<Rightarrow> localKeySet" where
  "newLocalKeySet lib src =
     (if Data src \<noteq> '''' then
        (case DecodeString lib (Data src) of
           Inl err \<Rightarrow> Some (\<lambda>_. Inl (ErrBase64Decode err))
         | Inr kbytes \<Rightarrow>
             (case jwk_Parse lib kbytes (PEM src) of
                Inl err \<Rightarrow> Some (\<lambda>_. Inl (ErrParseKeyData err))
              | Inr ks \<Rightarrow> Some (\<lambda>_. Inr ks)))
      else
        (case jwk_ReadFile lib (File src) (PEM src) of
           Inl err \<Rightarrow> Some (\<lambda>_. Inl (ErrReadKeySet (File src) err))
         | Inr ks \<Rightarrow> Some (\<lambda>_. Inr ks)))"

definition localKeySet_keySet :: "localKeySet \<Rightarrow> context \<Rightarrow> error + jwkSet" where
  "localKeySet_keySet lks ctx =
     (case lks of None \<Rightarrow> Inl errNilLocalKeySet | Some f \<Rightarrow> f ctx)"

definition remoteKeySet_keySet :: "'c lib \<Rightarrow> string \<Rightarrow> context \<Rightarrow> error + jwkSet" where
  "remoteKeySet_keySet lib url ctx = jwk_Get lib ctx url"

text \<open>The method \<^verbatim>\<open>keySet\<close> of the interface \<^verbatim>\<open>keySet\<close>, by the value's dynamic type.\<close>

definition keySet_keySet :: "'c lib \<Rightarrow> keySet \<Rightarrow> context \<Rightarrow> error + jwkSet" where
  "keySet_keySet lib ks ctx =
     (case ks of
        RemoteKS url \<Rightarrow> remoteKeySet_keySet lib url ctx
      | LocalKS lks \<Rightarrow> localKeySet_keySet lks ctx)"

text \<open>
  The shared \<^verbatim>\<open>jwk.Cache\<close> as \<open>newJWTHelper\<close> sees it: the registrations made so far, a URL
  with its refresh interval (\<open>None\<close> for the default one).
\<close>

type_synonym jwkCache = "(string \<times> Duration option) list"

definition newRemoteKeySet :: "jwkCache \<Rightarrow> RemoteSource \<Rightarrow> keySet \<times> jwkCache" where
  "newRemoteKeySet jc src =
     (if RefreshInterval src > 0
      then (RemoteKS (URL src), jc @ [(URL src, Some (RefreshInterval src))])
      else (RemoteKS (URL src), jc @ [(URL src, None)]))"

subsection \<open>newJWTHelper\<close>

text \<open>\<^verbatim>\<open>m[k] = v\<close> on the association list of a Go map.\<close>

fun map_set :: "(string \<times> 'v) list \<Rightarrow> string \<Rightarrow> 'v \<Rightarrow> (string \<times> 'v) list" where
  "map_set [] k v = [(k, v)]"
| "map_set ((k', v') # m) k v =
     (if k' = k then (k, v) # m else (k', v') # map_set m k v)"

text \<open>One turn of the loop over \<^verbatim>\<open>conf.KeySets\<close>.\<close>

definition addKeySet ::
  "'c lib \<Rightarrow> (string \<times> keySet) list \<times> jwkCache option \<Rightarrow> KeySetConf
     \<Rightarrow> (string \<times> keySet) list \<times> jwkCache option" where
  "addKeySet lib st ks =
     (case st of (m, jwkc) \<Rightarrow>
        (case Remote ks of
           Some r \<Rightarrow>
             (let jc = (case jwkc of None \<Rightarrow> [] | Some c \<Rightarrow> c);
                  (rks, jc') = newRemoteKeySet jc r
              in (map_set m (ID ks) rks, Some jc'))
         | None \<Rightarrow>
             (case Local ks of
                Some l \<Rightarrow> (map_set m (ID ks) (LocalKS (newLocalKeySet lib l)), jwkc)
              | None \<Rightarrow> (m, jwkc))))"

definition newJWTHelper :: "'c lib \<Rightarrow> JWTConf option \<Rightarrow> 'c jwtHelper \<times> jwkCache option" where
  "newJWTHelper lib conf =
     (case conf of
        None \<Rightarrow> (\<lparr>keySets = [], cache = None, verify = True\<rparr>, None)
      | Some cf \<Rightarrow>
          (if \<not> DisableVerification cf then
             (let (m, jwkc) = foldl (addKeySet lib) ([], None) (KeySets cf)
              in (\<lparr>keySets = m,
                   cache = (if CacheSize cf > 0 then Some (mkCache lib (CacheSize cf)) else None),
                   verify = True\<rparr>, jwkc))
           else (\<lparr>keySets = [], cache = None, verify = False\<rparr>, None)))"

subsection \<open>extract\<close>

text \<open>What a call returns: Go's two results, the cache afterwards and the events.\<close>

type_synonym ('a, 'c) ret = "('a \<times> error option) \<times> 'c option \<times> event list"

type_synonym claims = "string \<rightharpoonup> pbValue"

text \<open>Lines 95 to 101 of \<^verbatim>\<open>extract\<close>: the cache key.\<close>

definition cacheKey_of :: "'c jwtHelper \<Rightarrow> string \<Rightarrow> string" where
  "cacheKey_of j token =
     (if cache j \<noteq> None then
        (let lastIdx = LastIndexByte token CHR ''.''
         in if lastIdx > 0 then drop (nat lastIdx) token else '''')
      else '''')"

text \<open>
  Lines 125 to 142 of \<^verbatim>\<open>parseOptions\<close>: the key set to verify with, or the error
  returned. The loop over a map of length one leaves its only value in \<^verbatim>\<open>ks\<close>.
\<close>

definition selectKeySet :: "'c jwtHelper \<Rightarrow> AuxData_JWT \<Rightarrow> error + keySet" where
  "selectKeySet j auxJWT =
     (if KeySetId auxJWT = '''' then
        (if length (keySets j) \<noteq> 1 then Inl errNoKeySetToVerify
         else Inr (snd (last (keySets j))))
      else
        (case map_of (keySets j) (KeySetId auxJWT) of
           None \<Rightarrow> Inl (ErrKeySetNotFound (KeySetId auxJWT))
         | Some ksDef \<Rightarrow> Inr ksDef))"

definition parseOptions ::
  "'c lib \<Rightarrow> 'c jwtHelper \<Rightarrow> context \<Rightarrow> AuxData_JWT \<Rightarrow> string \<Rightarrow> (ParseOption list, 'c) ret" where
  "parseOptions lib j ctx auxJWT cacheKey =
     (if \<not> verify j then (([WithVerify False, WithValidate True], None), cache j, [])
      else
        (case (if cacheKey \<noteq> '''' then
                 (case cache j of
                    None \<Rightarrow> Inl PanicNilCache
                  | Some c \<Rightarrow>
                      (case GetIFPresent lib c cacheKey of
                         (found, c') \<Rightarrow>
                           Inr (found, Some c',
                                [CacheGet cacheKey,
                                 if found then MetricCacheHit else MetricCacheMiss])))
               else Inr (False, cache j, [])) of
           Inl e \<Rightarrow> (([], Some e), cache j, [])
         | Inr (hit, c1, ev1) \<Rightarrow>
             (if hit then (([WithVerify False, WithValidate True], None), c1, ev1)
              else
                (case selectKeySet j auxJWT of
                   Inl e \<Rightarrow> (([], Some e), c1, ev1)
                 | Inr ks \<Rightarrow>
                     (case keySet_keySet lib ks ctx of
                        Inl err \<Rightarrow> (([], Some (ErrRetrieveKeySet err)), c1, ev1 @ [KeySetCall ks])
                      | Inr jwks \<Rightarrow>
                          (([WithKeySet jwks, WithValidate True], None), c1,
                           ev1 @ [KeySetCall ks]))))))"

text \<open>The loop over the token's pairs, with the map built so far.\<close>

fun iterate :: "'c lib \<Rightarrow> (any \<times> any) list \<Rightarrow> claims \<Rightarrow> claims \<times> event list" where
  "iterate lib [] jwtPBMap = (jwtPBMap, [])"
| "iterate lib (p # ps) jwtPBMap =
     (let (key, ok) = (case fst p of AString s \<Rightarrow> (s, True) | _ \<Rightarrow> ('''', False));
          w = (if \<not> ok
               then [Warn ''Ignoring JWT key-value pair because the key is not a string'' p]
               else [])
      in case ToStructPB lib (snd p) of
           Inl err \<Rightarrow>
             (case iterate lib ps jwtPBMap of
                (m, ev) \<Rightarrow>
                  (m, w @ [Warn ''Ignoring JWT key-value pair because the value is not in a known format'' p] @ ev))
         | Inr val \<Rightarrow>
             (case iterate lib ps (jwtPBMap(key \<mapsto> val)) of
                (m, ev) \<Rightarrow> (m, w @ ev)))"

text \<open>Lines 159 to 162 of \<^verbatim>\<open>doExtract\<close>: the time-to-live of the cache entry.\<close>

definition cacheExpiry :: "'c lib \<Rightarrow> jwtToken \<Rightarrow> Duration" where
  "cacheExpiry lib token =
     (let exp = time_Until (Now lib) (Expiration token)
      in if exp > 0 then exp else defaultCacheExpiry)"

definition doExtract ::
  "'c lib \<Rightarrow> 'c jwtHelper \<Rightarrow> context \<Rightarrow> AuxData_JWT \<Rightarrow> ParseOption list \<Rightarrow> string
     \<Rightarrow> (claims option, 'c) ret" where
  "doExtract lib j ctx auxJWT parseOpts cacheKey =
     (case ParseString lib (Token auxJWT) parseOpts of
        Inl err \<Rightarrow> ((None, Some (ErrParseJWT err)), cache j, [ParseCall (Token auxJWT) parseOpts])
      | Inr token \<Rightarrow>
          (case (if cacheKey \<noteq> '''' then
                   (let expiry = cacheExpiry lib token
                    in case cache j of
                         None \<Rightarrow> Inl PanicNilCache
                       | Some c \<Rightarrow>
                           Inr (Some (SetWithExpire lib c cacheKey expiry),
                                [CacheSet cacheKey expiry]))
                 else Inr (cache j, [])) of
             Inl e \<Rightarrow> ((None, Some e), cache j, [ParseCall (Token auxJWT) parseOpts])
           | Inr (c1, ev1) \<Rightarrow>
               (case iterate lib (Pairs token) Map.empty of
                  (jwtPBMap, ev2) \<Rightarrow>
                    ((Some jwtPBMap, None), c1,
                     [ParseCall (Token auxJWT) parseOpts] @ ev1 @ ev2))))"

text \<open>
  The method \<^verbatim>\<open>extract\<close> of \<^verbatim>\<open>jwtHelper\<close>, under its receiver's name (the bare
  name is a keyword of Isabelle).
\<close>

definition jwtHelper_extract ::
  "'c lib \<Rightarrow> 'c jwtHelper \<Rightarrow> context \<Rightarrow> AuxData_JWT option \<Rightarrow> (claims option, 'c) ret" where
  "jwtHelper_extract lib j ctx auxJWT =
     (case auxJWT of
        None \<Rightarrow> ((None, None), cache j, [])
      | Some a \<Rightarrow>
          (if Token a = '''' then ((None, None), cache j, [])
           else
             (let cacheKey = cacheKey_of j (Token a)
              in case parseOptions lib j ctx a cacheKey of
                   ((parseOpts, Some err), c1, ev1) \<Rightarrow> ((None, Some err), c1, ev1)
                 | ((parseOpts, None), c1, ev1) \<Rightarrow>
                     (case doExtract lib (j\<lparr>cache := c1\<rparr>) ctx a parseOpts cacheKey of
                        (r, c2, ev2) \<Rightarrow> (r, c2, ev1 @ ev2)))))"

subsection \<open>Reading a call's outcome\<close>

definition result_of :: "('a, 'c) ret \<Rightarrow> 'a" where
  "result_of r = fst (fst r)"

definition error_of :: "('a, 'c) ret \<Rightarrow> error option" where
  "error_of r = snd (fst r)"

definition cache_of :: "('a, 'c) ret \<Rightarrow> 'c option" where
  "cache_of r = fst (snd r)"

definition events_of :: "('a, 'c) ret \<Rightarrow> event list" where
  "events_of r = snd (snd r)"

fun isCacheOp :: "event \<Rightarrow> bool" where
  "isCacheOp (CacheGet k) = True"
| "isCacheOp (CacheSet k d) = True"
| "isCacheOp e = False"

fun isCacheSet :: "event \<Rightarrow> bool" where
  "isCacheSet (CacheSet k d) = True"
| "isCacheSet e = False"

fun isKeySetCall :: "event \<Rightarrow> bool" where
  "isKeySetCall (KeySetCall ks) = True"
| "isKeySetCall e = False"

fun isParseCall :: "event \<Rightarrow> bool" where
  "isParseCall (ParseCall t opts) = True"
| "isParseCall e = False"

text \<open>
  The cache probe of \<^verbatim>\<open>parseOptions\<close> hits: a cache is there, a key was derived and
  \<^verbatim>\<open>GetIFPresent\<close> returns no error for it.
\<close>

definition probeHit :: "'c lib \<Rightarrow> 'c jwtHelper \<Rightarrow> string \<Rightarrow> bool" where
  "probeHit lib j token =
     (case cache j of
        None \<Rightarrow> False
      | Some c \<Rightarrow>
          cacheKey_of j token \<noteq> '''' \<and> fst (GetIFPresent lib c (cacheKey_of j token)))"

text \<open>
  The cache and the events after the probe of \<^verbatim>\<open>parseOptions\<close>; without
  verification, or without a key, nothing is probed.
\<close>

definition afterProbe :: "'c lib \<Rightarrow> 'c jwtHelper \<Rightarrow> string \<Rightarrow> 'c option \<times> event list" where
  "afterProbe lib j key =
     (if verify j \<and> key \<noteq> '''' then
        (case cache j of
           None \<Rightarrow> (None, [])
         | Some c \<Rightarrow>
             (Some (snd (GetIFPresent lib c key)),
              [CacheGet key,
               if fst (GetIFPresent lib c key) then MetricCacheHit else MetricCacheMiss]))
      else (cache j, []))"

text \<open>The two errors of key set selection.\<close>

fun isSelectionError :: "error option \<Rightarrow> bool" where
  "isSelectionError (Some errNoKeySetToVerify) = True"
| "isSelectionError (Some (ErrKeySetNotFound i)) = True"
| "isSelectionError e = False"

text \<open>
  A run went on with the key set \<open>ks\<close>: it called the \<^verbatim>\<open>keySet\<close> method of \<open>ks\<close> and of
  no other key set, and returned no selection error; when the method failed, the run
  ended there, with that error wrapped and nothing parsed; when it returned key
  material, the token was parsed once, against that material and with validation.
\<close>

definition proceedsWith ::
  "'c lib \<Rightarrow> context \<Rightarrow> AuxData_JWT \<Rightarrow> keySet \<Rightarrow> (claims option, 'c) ret \<Rightarrow> bool" where
  "proceedsWith lib ctx a ks r =
     (filter isKeySetCall (events_of r) = [KeySetCall ks]
      \<and> \<not> isSelectionError (error_of r)
      \<and> (case keySet_keySet lib ks ctx of
           Inl err \<Rightarrow>
             result_of r = None \<and> error_of r = Some (ErrRetrieveKeySet err)
             \<and> filter isParseCall (events_of r) = []
         | Inr jwks \<Rightarrow>
             filter isParseCall (events_of r)
               = [ParseCall (Token a) [WithKeySet jwks, WithValidate True]]))"




subsection \<open>A sample library, for concrete runs\<close>

text \<open>
  A small stand-in for the packages, to run the functions on concrete inputs: the cache
  is the list of the keys stored with their time-to-live; the parser knows four
  tokens, checks the signature against the key set it is given unless told not to, and
  checks the expiry against its own clock reading when validation is on.
\<close>

definition sampleToken :: "string \<Rightarrow> (jwtToken \<times> jwkSet) option" where
  "sampleToken s =
     (if s = ''h.p.sig'' then
        Some (\<lparr>Expiration = 1000, Pairs = [(AString ''sub'', AString ''u1'')]\<rparr>, JwkSet ''K'')
      else if s = ''h.q.sig2'' then
        Some (\<lparr>Expiration = zeroTime,
               Pairs = [(AInt 7, AString ''x''), (AString ''sub'', AString ''u1'')]\<rparr>, JwkSet ''K'')
      else if s = ''h.r.far'' then
        Some (\<lparr>Expiration = 2 ^ 64, Pairs = [(AString ''sub'', AString ''u2'')]\<rparr>, JwkSet ''K'')
      else if s = ''h.v.sig3'' then
        Some (\<lparr>Expiration = 1000,
               Pairs = [(AString ''sub'', AString ''u1''), (AString ''blob'', AOther 0)]\<rparr>,
              JwkSet ''K'')
      else None)"

definition sampleParse :: "Time \<Rightarrow> string \<Rightarrow> ParseOption list \<Rightarrow> error + jwtToken" where
  "sampleParse clock s opts =
     (case sampleToken s of
        None \<Rightarrow> Inl (ExternalError ''invalid JWT'')
      | Some (tok, signer) \<Rightarrow>
          (if WithVerify False \<notin> set opts \<and> WithKeySet signer \<notin> set opts
           then Inl (ExternalError ''could not verify message'')
           else if WithValidate True \<in> set opts \<and> Expiration tok \<noteq> zeroTime
                   \<and> Expiration tok \<le> clock
           then Inl (ExternalError ''exp not satisfied'')
           else Inr tok))"

definition sampleToStructPB :: "any \<Rightarrow> error + pbValue" where
  "sampleToStructPB v =
     (case v of
        AString s \<Rightarrow> Inr (PbString s)
      | AInt i \<Rightarrow> Inr (PbNumber i)
      | ABool b \<Rightarrow> Inr (PbBool b)
      | ANil \<Rightarrow> Inr PbNull
      | AOther n \<Rightarrow> Inl (ExternalError ''unknown type''))"

text \<open>The sample library, with the parser's clock reading and that of \<^verbatim>\<open>time.Until\<close>.\<close>

definition sampleLib :: "Time \<Rightarrow> Time \<Rightarrow> (string \<times> Duration) list lib" where
  "sampleLib parseClock untilClock =
     \<lparr>mkCache = (\<lambda>size. []),
      GetIFPresent = (\<lambda>c k. (map_of c k \<noteq> None, c)),
      SetWithExpire = (\<lambda>c k d. (k, d) # c),
      ParseString = sampleParse parseClock,
      ToStructPB = sampleToStructPB,
      Now = untilClock,
      DecodeString =
        (\<lambda>s. if s = ''!'' then Inl (ExternalError ''illegal base64 data'') else Inr s),
      jwk_Parse =
        (\<lambda>b pem. if b = ''S0s='' then Inr (JwkSet ''K'')
                  else Inl (ExternalError ''failed to parse'')),
      jwk_ReadFile =
        (\<lambda>f pem. if f = ''keys.json'' then Inr (JwkSet ''K'')
                  else Inl (ExternalError ''no such file'')),
      jwk_Get =
        (\<lambda>ctx url. if url = ''https://keys'' then Inr (JwkSet ''K'')
                    else Inl (ExternalError ''fetch failed''))\<rparr>"

text \<open>A helper with one local key set and an empty cache.\<close>

definition sampleHelper :: "(string \<times> Duration) list jwtHelper" where
  "sampleHelper =
     \<lparr>keySets = [(''ks1'', LocalKS (Some (\<lambda>_. Inr (JwkSet ''K''))))],
      cache = Some [], verify = True\<rparr>"

text \<open>A configuration with a local and a remote key set.\<close>

definition sampleConf :: "bool \<Rightarrow> int \<Rightarrow> JWTConf" where
  "sampleConf disable n =
     \<lparr>KeySets =
        [\<lparr>ID = ''ks1'', Remote = None,
          Local = Some \<lparr>Data = ''S0s='', File = '''', PEM = False\<rparr>\<rparr>,
         \<lparr>ID = ''ks2'', Remote = Some \<lparr>URL = ''https://keys'', RefreshInterval = 0\<rparr>,
          Local = None\<rparr>],
      DisableVerification = disable, CacheSize = n\<rparr>"

section \<open>Properties\<close>

lemmas ret_defs = result_of_def error_of_def cache_of_def events_of_def

subsection \<open>Auxiliary facts\<close>

text \<open>The registry as a Go map, and the events of the claims loop and of \<^verbatim>\<open>doExtract\<close>.\<close>

lemma cacheKey_of_nil: "cache j = None \<Longrightarrow> cacheKey_of j t = ''''"
  by (simp add: cacheKey_of_def)

lemma card_keys:
  assumes "distinct (map fst m)"
  shows "card (dom (map_of m)) = length m"
proof -
  have "dom (map_of m) = set (map fst m)" by (simp add: dom_map_of_conv_image_fst)
  moreover have "card (set (map fst m)) = length (map fst m)"
    using assms by (rule distinct_card)
  ultimately show ?thesis by simp
qed

lemma length_one: "length m = Suc 0 \<Longrightarrow> \<exists>p. m = [p]"
  by (cases m) auto

lemma iterate_only_warns:
  assumes "\<And>s p. \<not> P (Warn s p)"
  shows "filter P (snd (iterate lib ps m)) = []"
proof (induction ps arbitrary: m)
  case Nil
  show ?case by simp
next
  case (Cons p ps)
  show ?case
    by (simp add: Let_def split_beta assms Cons.IH split: sum.splits any.splits)
qed

lemma doExtract_events:
  assumes "\<And>s p. \<not> P (Warn s p)"
  shows "filter P (events_of (doExtract lib j ctx a opts key)) =
         filter P (ParseCall (Token a) opts #
           (case ParseString lib (Token a) opts of
              Inl e \<Rightarrow> []
            | Inr token \<Rightarrow>
                (if key \<noteq> '''' \<and> cache j \<noteq> None
                 then [CacheSet key (cacheExpiry lib token)]
                 else [])))"
  by (simp add: doExtract_def events_of_def Let_def split_beta iterate_only_warns [of P, OF assms]
        split: sum.splits option.splits)

text \<open>\<^verbatim>\<open>parseOptions\<close> and \<^verbatim>\<open>extract\<close>, path by path.\<close>

lemma parseOptions_skip:
  assumes "\<not> verify j \<or> probeHit lib j token"
  shows "parseOptions lib j ctx a (cacheKey_of j token) =
          (([WithVerify False, WithValidate True], None), afterProbe lib j (cacheKey_of j token))"
  using assms
  by (auto simp: parseOptions_def probeHit_def afterProbe_def split_beta
           split: option.splits)

lemma parseOptions_full:
  assumes "verify j" and "\<not> probeHit lib j token"
  shows "parseOptions lib j ctx a (cacheKey_of j token) =
          (case selectKeySet j a of
             Inl e \<Rightarrow> (([], Some e), afterProbe lib j (cacheKey_of j token))
           | Inr ks \<Rightarrow>
               (case keySet_keySet lib ks ctx of
                  Inl err \<Rightarrow>
                    (([], Some (ErrRetrieveKeySet err)),
                     fst (afterProbe lib j (cacheKey_of j token)),
                     snd (afterProbe lib j (cacheKey_of j token)) @ [KeySetCall ks])
                | Inr jwks \<Rightarrow>
                    (([WithKeySet jwks, WithValidate True], None),
                     fst (afterProbe lib j (cacheKey_of j token)),
                     snd (afterProbe lib j (cacheKey_of j token)) @ [KeySetCall ks])))"
proof (cases "cache j")
  case None
  then show ?thesis
    using assms
    by (simp add: parseOptions_def afterProbe_def cacheKey_of_nil split: sum.splits)
next
  case (Some c)
  then show ?thesis
    using assms
    by (auto simp: parseOptions_def probeHit_def afterProbe_def split_beta split: sum.splits)
qed

lemma extract_skip:
  assumes "Token a \<noteq> ''''" and "\<not> verify j \<or> probeHit lib j (Token a)"
  shows "jwtHelper_extract lib j ctx (Some a) =
          (case doExtract lib (j\<lparr>cache := fst (afterProbe lib j (cacheKey_of j (Token a)))\<rparr>) ctx a
                  [WithVerify False, WithValidate True] (cacheKey_of j (Token a)) of
             (r, c2, ev2) \<Rightarrow> (r, c2, snd (afterProbe lib j (cacheKey_of j (Token a))) @ ev2))"
  using assms(1) parseOptions_skip [OF assms(2), of ctx a]
  by (simp add: jwtHelper_extract_def Let_def split_beta)

lemma extract_full:
  assumes "Token a \<noteq> ''''" and "verify j" and "\<not> probeHit lib j (Token a)"
  shows "jwtHelper_extract lib j ctx (Some a) =
          (case selectKeySet j a of
             Inl e \<Rightarrow> ((None, Some e), afterProbe lib j (cacheKey_of j (Token a)))
           | Inr ks \<Rightarrow>
               (case keySet_keySet lib ks ctx of
                  Inl err \<Rightarrow>
                    ((None, Some (ErrRetrieveKeySet err)),
                     fst (afterProbe lib j (cacheKey_of j (Token a))),
                     snd (afterProbe lib j (cacheKey_of j (Token a))) @ [KeySetCall ks])
                | Inr jwks \<Rightarrow>
                    (case doExtract lib (j\<lparr>cache := fst (afterProbe lib j (cacheKey_of j (Token a)))\<rparr>)
                            ctx a [WithKeySet jwks, WithValidate True] (cacheKey_of j (Token a)) of
                       (r, c2, ev2) \<Rightarrow>
                         (r, c2, snd (afterProbe lib j (cacheKey_of j (Token a))) @ [KeySetCall ks] @ ev2))))"
  using assms(1) parseOptions_full [OF assms(2,3), of ctx a]
  by (simp add: jwtHelper_extract_def Let_def split_beta split: sum.splits)

text \<open>What the probe logs, and what follows a key set selection.\<close>

lemma afterProbe_events:
  "filter isParseCall (snd (afterProbe lib j key)) = []
   \<and> filter isKeySetCall (snd (afterProbe lib j key)) = []
   \<and> filter isCacheSet (snd (afterProbe lib j key)) = []"
  by (simp add: afterProbe_def split: option.splits)


lemma doExtract_not_selection_error:
  "\<not> isSelectionError (error_of (doExtract lib j ctx a opts key))"
  by (simp add: doExtract_def error_of_def Let_def split_beta split: sum.splits option.splits)

lemma extract_proceeds:
  assumes "Token a \<noteq> ''''" and "verify j" and "\<not> probeHit lib j (Token a)"
    and "selectKeySet j a = Inr ks"
  shows "proceedsWith lib ctx a ks (jwtHelper_extract lib j ctx (Some a))"
proof (cases "keySet_keySet lib ks ctx")
  case (Inl err)
  then show ?thesis
    using assms(4) afterProbe_events [of lib j "cacheKey_of j (Token a)"]
    by (simp add: extract_full [OF assms(1,2,3)] proceedsWith_def ret_defs)
next
  case (Inr jwks)
  then show ?thesis
    using assms(4) afterProbe_events [of lib j "cacheKey_of j (Token a)"]
      doExtract_not_selection_error [of lib _ ctx a _ "cacheKey_of j (Token a)"]
      doExtract_events [of isKeySetCall lib _ ctx a _ "cacheKey_of j (Token a)"]
      doExtract_events [of isParseCall lib _ ctx a _ "cacheKey_of j (Token a)"]
    by (simp add: extract_full [OF assms(1,2,3)] proceedsWith_def ret_defs split_beta
          split: sum.splits)
qed

lemma extract_selection_fails:
  assumes "Token a \<noteq> ''''" and "verify j" and "\<not> probeHit lib j (Token a)"
    and "selectKeySet j a = Inl e"
  shows "result_of (jwtHelper_extract lib j ctx (Some a)) = None
     \<and> error_of (jwtHelper_extract lib j ctx (Some a)) = Some e
     \<and> filter isKeySetCall (events_of (jwtHelper_extract lib j ctx (Some a))) = []
     \<and> filter isParseCall (events_of (jwtHelper_extract lib j ctx (Some a))) = []"
  using assms(4) afterProbe_events [of lib j "cacheKey_of j (Token a)"]
  by (simp add: extract_full [OF assms(1,2,3)] ret_defs)

text \<open>The sample helper with an empty cache never hits.\<close>

lemma sample_no_hit:
  "\<not> probeHit (sampleLib p u) (sampleHelper\<lparr>keySets := m\<rparr>) t"
  by (simp add: probeHit_def sampleHelper_def sampleLib_def)


text \<open>The results, the cache and the events of \<^verbatim>\<open>doExtract\<close>.\<close>

lemma doExtract_outcome:
  assumes "key \<noteq> '''' \<longrightarrow> cache j \<noteq> None"
  shows "fst (doExtract lib j ctx a opts key) =
          (case ParseString lib (Token a) opts of
             Inl err \<Rightarrow> (None, Some (ErrParseJWT err))
           | Inr token \<Rightarrow> (Some (fst (iterate lib (Pairs token) Map.empty)), None))"
  using assms
  by (auto simp: doExtract_def Let_def split_beta split: sum.splits option.splits)

lemma doExtract_cache:
  "cache_of (doExtract lib j ctx a opts key) =
     (case ParseString lib (Token a) opts of
        Inl err \<Rightarrow> cache j
      | Inr token \<Rightarrow>
          (if key \<noteq> '''' then
             (case cache j of
                None \<Rightarrow> None
              | Some c \<Rightarrow>
                  Some (SetWithExpire lib c key (cacheExpiry lib token)))
           else cache j))"
  by (auto simp: doExtract_def cache_of_def Let_def split_beta split: sum.splits option.splits)

lemma doExtract_parse_failed:
  assumes "ParseString lib (Token a) opts = Inl err"
  shows "doExtract lib j ctx a opts key
           = ((None, Some (ErrParseJWT err)), cache j, [ParseCall (Token a) opts])"
  using assms by (simp add: doExtract_def)

lemma afterProbe_cache_Some:
  assumes "cacheKey_of j t \<noteq> ''''"
  shows "fst (afterProbe lib j (cacheKey_of j t)) \<noteq> None"
  using assms cacheKey_of_nil [of j t]
  by (auto simp: afterProbe_def split: option.splits)

text \<open>An error comes with a nil result and without an insertion.\<close>

lemma extract_error_no_result:
  "error_of (jwtHelper_extract lib j ctx auxJWT) \<noteq> None \<longrightarrow>
     result_of (jwtHelper_extract lib j ctx auxJWT) = None
     \<and> filter isCacheSet (events_of (jwtHelper_extract lib j ctx auxJWT)) = []"
proof (cases auxJWT)
  case None
  then show ?thesis by (simp add: jwtHelper_extract_def ret_defs)
next
  case (Some a)
  let ?key = "cacheKey_of j (Token a)"
  let ?j = "j\<lparr>cache := fst (afterProbe lib j ?key)\<rparr>"
  have k: "?key \<noteq> '''' \<longrightarrow> cache ?j \<noteq> None"
    using afterProbe_cache_Some [of j "Token a" lib] by simp
  show ?thesis
  proof (cases "Token a = ''''")
    case True
    with Some show ?thesis by (simp add: jwtHelper_extract_def ret_defs)
  next
    case tok: False
    show ?thesis
    proof (cases "\<not> verify j \<or> probeHit lib j (Token a)")
      case True
      show ?thesis
        using afterProbe_events [of lib j ?key]
          doExtract_events [of isCacheSet lib ?j ctx a "[WithVerify False, WithValidate True]" ?key]
          doExtract_outcome [OF k, of lib ctx a "[WithVerify False, WithValidate True]"]
        by (simp add: Some extract_skip [OF tok True] ret_defs split_beta split: sum.splits)
    next
      case False
      then have v: "verify j" and h: "\<not> probeHit lib j (Token a)" by auto
      show ?thesis
        using afterProbe_events [of lib j ?key]
          doExtract_events [of isCacheSet lib ?j ctx a _ ?key]
          doExtract_outcome [OF k, of lib ctx a]
        by (simp add: Some extract_full [OF tok v h] ret_defs split_beta split: sum.splits)
    qed
  qed
qed


lemma doExtract_parse_calls:
  "filter isParseCall (events_of (doExtract lib j ctx a opts key)) = [ParseCall (Token a) opts]"
  by (simp add: doExtract_events [of isParseCall] split: sum.splits)

lemma doExtract_cache_sets:
  "filter isCacheSet (events_of (doExtract lib j ctx a opts key)) =
     (case ParseString lib (Token a) opts of
        Inl e \<Rightarrow> []
      | Inr token \<Rightarrow>
          (if key \<noteq> '''' \<and> cache j \<noteq> None
           then [CacheSet key (cacheExpiry lib token)]
           else []))"
  by (simp add: doExtract_events [of isCacheSet] split: sum.splits)

lemma doExtract_cache_ops:
  "cache j = None \<Longrightarrow> filter isCacheOp (events_of (doExtract lib j ctx a opts key)) = []"
  by (simp add: doExtract_events [of isCacheOp] split: sum.splits)

text \<open>A run that parsed is \<^verbatim>\<open>doExtract\<close> after events without an insertion.\<close>

lemma mem_filter_isParseCall:
  "ParseCall t opts \<in> set evs \<Longrightarrow> ParseCall t opts \<in> set (filter isParseCall evs)"
  by simp

lemma extract_parse_call:
  assumes "ParseCall t opts \<in> set (events_of (jwtHelper_extract lib j ctx (Some a)))"
  shows "t = Token a \<and> Token a \<noteq> ''''
     \<and> (\<exists>ev1. filter isCacheSet ev1 = []
          \<and> jwtHelper_extract lib j ctx (Some a) =
              (case doExtract lib (j\<lparr>cache := fst (afterProbe lib j (cacheKey_of j (Token a)))\<rparr>)
                      ctx a opts (cacheKey_of j (Token a)) of
                 (r, c2, ev2) \<Rightarrow> (r, c2, ev1 @ ev2)))"
proof -
  let ?key = "cacheKey_of j (Token a)"
  let ?j = "j\<lparr>cache := fst (afterProbe lib j ?key)\<rparr>"
  let ?ev = "snd (afterProbe lib j ?key)"
  note mem = mem_filter_isParseCall [OF assms]
  have tok: "Token a \<noteq> ''''"
    using assms by (auto simp: jwtHelper_extract_def events_of_def)
  show ?thesis
  proof (cases "\<not> verify j \<or> probeHit lib j (Token a)")
    case True
    have "filter isParseCall (events_of (jwtHelper_extract lib j ctx (Some a)))
            = [ParseCall (Token a) [WithVerify False, WithValidate True]]"
      using afterProbe_events [of lib j ?key]
        doExtract_parse_calls [of lib ?j ctx a "[WithVerify False, WithValidate True]" ?key]
      by (simp add: extract_skip [OF tok True] ret_defs split_beta)
    with mem have "t = Token a" and "opts = [WithVerify False, WithValidate True]" by auto
    with tok afterProbe_events [of lib j ?key] extract_skip [OF tok True, of ctx]
    show ?thesis by auto
  next
    case False
    then have v: "verify j" and h: "\<not> probeHit lib j (Token a)" by auto
    show ?thesis
    proof (cases "selectKeySet j a")
      case (Inl e)
      with mem afterProbe_events [of lib j ?key] show ?thesis
        by (simp add: extract_full [OF tok v h] ret_defs)
    next
      case (Inr ks)
      show ?thesis
      proof (cases "keySet_keySet lib ks ctx")
        case (Inl err)
        with Inr mem afterProbe_events [of lib j ?key] show ?thesis
          by (simp add: extract_full [OF tok v h] ret_defs)
      next
        case jw: (Inr jwks)
        have "filter isParseCall (events_of (jwtHelper_extract lib j ctx (Some a)))
            = [ParseCall (Token a) [WithKeySet jwks, WithValidate True]]"
          using afterProbe_events [of lib j ?key] Inr jw
            doExtract_parse_calls [of lib ?j ctx a "[WithKeySet jwks, WithValidate True]" ?key]
          by (simp add: extract_full [OF tok v h] ret_defs split_beta)
        with mem have t: "t = Token a" and o: "opts = [WithKeySet jwks, WithValidate True]"
          by auto
        have "filter isCacheSet (?ev @ [KeySetCall ks]) = []"
          using afterProbe_events [of lib j ?key] by simp
        moreover have "jwtHelper_extract lib j ctx (Some a) =
              (case doExtract lib ?j ctx a opts ?key of
                 (r, c2, ev2) \<Rightarrow> (r, c2, (?ev @ [KeySetCall ks]) @ ev2))"
          using Inr jw o by (simp add: extract_full [OF tok v h] split_beta)
        ultimately show ?thesis using t tok by blast
      qed
    qed
  qed
qed

text \<open>The cache key and the probe do not read the registry.\<close>

lemma keySets_update_irrelevant:
  "cacheKey_of (j\<lparr>keySets := m\<rparr>) t = cacheKey_of j t"
  "afterProbe lib (j\<lparr>keySets := m\<rparr>) k = afterProbe lib j k"
  "probeHit lib (j\<lparr>keySets := m\<rparr>) t = probeHit lib j t"
  by (simp_all add: cacheKey_of_def afterProbe_def probeHit_def cong: option.case_cong)

text \<open>The sample library and some of its runs, evaluated.\<close>

lemma sampleLib_sel:
  "ParseString (sampleLib p u) = sampleParse p"
  "Now (sampleLib p u) = u"
  "ToStructPB (sampleLib p u) = sampleToStructPB"
  "SetWithExpire (sampleLib p u) c k d = (k, d) # c"
  "GetIFPresent (sampleLib p u) c k = (map_of c k \<noteq> None, c)"
  "DecodeString (sampleLib p u) s =
     (if s = ''!'' then Inl (ExternalError ''illegal base64 data'') else Inr s)"
  "jwk_Parse (sampleLib p u) b pem =
     (if b = ''S0s='' then Inr (JwkSet ''K'') else Inl (ExternalError ''failed to parse''))"
  "jwk_ReadFile (sampleLib p u) f pem =
     (if f = ''keys.json'' then Inr (JwkSet ''K'') else Inl (ExternalError ''no such file''))"
  "jwk_Get (sampleLib p u) ctx url =
     (if url = ''https://keys'' then Inr (JwkSet ''K'') else Inl (ExternalError ''fetch failed''))"
  "mkCache (sampleLib p u) n = []"
  by (simp_all add: sampleLib_def)

lemma sample_hit:
  "probeHit (sampleLib p u) (sampleHelper\<lparr>cache := Some [(''.sig'', d)]\<rparr>) ''h.p.sig''"
  by (simp add: probeHit_def sampleHelper_def sampleLib_def cacheKey_of_def)

lemmas sample_defs =
  jwtHelper_extract_def parseOptions_def doExtract_def selectKeySet_def keySet_keySet_def
  localKeySet_keySet_def remoteKeySet_keySet_def cacheKey_of_def sampleHelper_def sampleLib_sel
  sampleParse_def sampleToken_def sampleToStructPB_def zeroTime_def Let_def

lemma sample_run_expired:
  "jwtHelper_extract (sampleLib 1000 1000) sampleHelper (Ctx 0)
      (Some \<lparr>Token = ''h.p.sig'', KeySetId = ''''\<rparr>)
   = ((None, Some (ErrParseJWT (ExternalError ''exp not satisfied''))), Some [],
      [CacheGet ''.sig'', MetricCacheMiss, KeySetCall (LocalKS (Some (\<lambda>_. Inr (JwkSet ''K'')))),
       ParseCall ''h.p.sig'' [WithKeySet (JwkSet ''K''), WithValidate True]])"
  by (simp add: sample_defs)

lemma sample_run_hit:
  "jwtHelper_extract (sampleLib 10 10) (sampleHelper\<lparr>cache := Some [(''.sig'', 5)]\<rparr>) (Ctx 0)
      (Some \<lparr>Token = ''h.p.sig'', KeySetId = ''nope''\<rparr>)
   = ((Some [''sub'' \<mapsto> PbString ''u1''], None), Some [(''.sig'', 990), (''.sig'', 5)],
      [CacheGet ''.sig'', MetricCacheHit,
       ParseCall ''h.p.sig'' [WithVerify False, WithValidate True], CacheSet ''.sig'' 990])"
  by (simp add: sample_defs cacheExpiry_def time_Until_def time_Sub_def maxDuration_def
        minDuration_def)

lemma sample_run_not_found:
  "jwtHelper_extract (sampleLib 10 10) sampleHelper (Ctx 0)
      (Some \<lparr>Token = ''h.p.sig'', KeySetId = ''nope''\<rparr>)
   = ((None, Some (ErrKeySetNotFound ''nope'')), Some [], [CacheGet ''.sig'', MetricCacheMiss])"
  by (simp add: sample_defs)

text \<open>A helper without a cache.\<close>

lemma afterProbe_no_key: "afterProbe lib j '''' = (cache j, [])"
  by (simp add: afterProbe_def)

lemma extract_without_cache:
  assumes "cache j = None"
  shows "filter isCacheOp (events_of (jwtHelper_extract lib j ctx auxJWT)) = []
     \<and> cache_of (jwtHelper_extract lib j ctx auxJWT) = None"
proof (cases auxJWT)
  case None
  with assms show ?thesis by (simp add: jwtHelper_extract_def ret_defs)
next
  case (Some a)
  have key: "cacheKey_of j (Token a) = ''''" using assms by (rule cacheKey_of_nil)
  let ?j = "j\<lparr>cache := None\<rparr>"
  have c: "cache ?j = None" by simp
  show ?thesis
  proof (cases "Token a = ''''")
    case True
    with Some assms show ?thesis by (simp add: jwtHelper_extract_def ret_defs)
  next
    case tok: False
    show ?thesis
    proof (cases "\<not> verify j \<or> probeHit lib j (Token a)")
      case True
      show ?thesis
        using doExtract_cache_ops [OF c, of lib ctx a "[WithVerify False, WithValidate True]" "''''"]
          doExtract_cache [of lib ?j ctx a "[WithVerify False, WithValidate True]" "''''"] assms
        by (simp add: Some extract_skip [OF tok True] key afterProbe_no_key ret_defs split_beta
              split: sum.splits)
    next
      case False
      then have v: "verify j" and h: "\<not> probeHit lib j (Token a)" by auto
      show ?thesis
        using doExtract_cache_ops [OF c, of lib ctx a _ "''''"]
          doExtract_cache [of lib ?j ctx a _ "''''"] assms
        by (simp add: Some extract_full [OF tok v h] key afterProbe_no_key ret_defs split_beta
              split: sum.splits)
    qed
  qed
qed

lemma newJWTHelper_no_cache:
  assumes "DisableVerification cf \<or> CacheSize cf \<le> 0"
  shows "cache (fst (newJWTHelper lib (Some cf))) = None"
  using assms by (auto simp: newJWTHelper_def split_beta)

text \<open>\<^verbatim>\<open>LastIndexByte\<close>, and the shape of every cache key: a dot, then a segment without dots.\<close>

lemma LastIndexByte_range: "- 1 \<le> LastIndexByte s c \<and> LastIndexByte s c < int (length s)"
  by (induction s) (auto simp: Let_def)

lemma LastIndexByte_absent: "LastIndexByte s c = - 1 \<longleftrightarrow> c \<notin> set s"
proof (induction s)
  case Nil
  show ?case by simp
next
  case (Cons x xs)
  have "- 1 \<le> LastIndexByte xs c" by (simp add: LastIndexByte_range)
  with Cons show ?case by (auto simp: Let_def)
qed

lemma LastIndexByte_drop:
  "0 \<le> LastIndexByte s c \<Longrightarrow>
     \<exists>rest. drop (nat (LastIndexByte s c)) s = c # rest \<and> c \<notin> set rest"
proof (induction s)
  case Nil
  then show ?case by simp
next
  case (Cons x xs)
  show ?case
  proof (cases "0 \<le> LastIndexByte xs c")
    case True
    then have "nat (LastIndexByte xs c + 1) = Suc (nat (LastIndexByte xs c))" by simp
    with True Cons.IH show ?thesis by (simp add: Let_def)
  next
    case False
    then have "LastIndexByte xs c = - 1" using LastIndexByte_range [of xs c] by simp
    then have "c \<notin> set xs" by (simp add: LastIndexByte_absent)
    with False Cons.prems show ?thesis by (auto simp: Let_def split: if_splits)
  qed
qed

lemma cacheKey_of_shape:
  "cacheKey_of j t = '''' \<or> (\<exists>sig. cacheKey_of j t = CHR ''.'' # sig \<and> CHR ''.'' \<notin> set sig)"
  using LastIndexByte_drop [of t "CHR ''.''"]
  by (auto simp: cacheKey_of_def Let_def)

text \<open>The time-to-live in terms of the expiry and the clock reading.\<close>

lemma cacheExpiry_value:
  "cacheExpiry lib token =
     (if Now lib < Expiration token then min (Expiration token - Now lib) maxDuration
      else defaultCacheExpiry)"
  by (simp add: cacheExpiry_def time_Until_def time_Sub_def maxDuration_def minDuration_def
        Let_def)

lemma defaultCacheExpiry_value: "defaultCacheExpiry = 600000000000"
  by (simp add: defaultCacheExpiry_def Minute_def)

lemma sample_run_ok:
  "jwtHelper_extract (sampleLib 10 10) sampleHelper (Ctx 0)
      (Some \<lparr>Token = ''h.p.sig'', KeySetId = ''''\<rparr>)
   = ((Some [''sub'' \<mapsto> PbString ''u1''], None), Some [(''.sig'', 990)],
      [CacheGet ''.sig'', MetricCacheMiss, KeySetCall (LocalKS (Some (\<lambda>_. Inr (JwkSet ''K'')))),
       ParseCall ''h.p.sig'' [WithKeySet (JwkSet ''K''), WithValidate True],
       CacheSet ''.sig'' 990])"
  by (simp add: sample_defs cacheExpiry_value maxDuration_def)

text \<open>The registry \<^verbatim>\<open>newJWTHelper\<close> builds has one pair for each key.\<close>

lemma map_set_keys:
  "map fst (map_set m k v) = (if k \<in> set (map fst m) then map fst m else map fst m @ [k])"
  by (induction m) (auto simp: rev_image_eqI)

lemma map_set_distinct:
  "distinct (map fst m) \<Longrightarrow> distinct (map fst (map_set m k v))"
  by (simp add: map_set_keys)

lemma map_of_map_set: "map_of (map_set m k v) = (map_of m)(k \<mapsto> v)"
  by (induction m) auto

lemma addKeySet_distinct:
  "distinct (map fst (fst st)) \<Longrightarrow> distinct (map fst (fst (addKeySet lib st ks)))"
  by (cases st)
     (simp add: addKeySet_def newRemoteKeySet_def map_set_distinct Let_def split: option.splits)

lemma foldl_addKeySet_distinct:
  "distinct (map fst (fst st)) \<Longrightarrow> distinct (map fst (fst (foldl (addKeySet lib) st kss)))"
  by (induction kss arbitrary: st) (simp_all add: addKeySet_distinct)

lemma newJWTHelper_distinct:
  "distinct (map fst (keySets (fst (newJWTHelper lib conf))))"
  using foldl_addKeySet_distinct [of "([], None)" lib]
  by (simp add: newJWTHelper_def split_beta split: option.splits)

text \<open>A pair whose key is not a string is stored under the empty string.\<close>

lemma iterate_nonstring_key:
  assumes "\<And>s. k \<noteq> AString s" and "ToStructPB lib v = Inr pv"
  shows "fst (iterate lib ((k, v) # ps) m) = fst (iterate lib ps (m('''' \<mapsto> pv)))"
proof (cases k)
  case (AString s)
  with assms(1) show ?thesis by blast
qed (simp_all add: assms(2) split_beta)










subsection \<open>No token\<close>

text \<open>
  C7. When the request carries no token (no JWT part at all, or an empty token string),
  \<^verbatim>\<open>extract\<close> returns a nil claims mapping and no error, and calls nothing: the cache
  is as it was and the list of events (cache, key sets, parser, log) is empty.
\<close>

theorem extract_empty_token:
  "auxJWT = None \<or> (\<exists>a. auxJWT = Some a \<and> Token a = '''') \<Longrightarrow>
     jwtHelper_extract lib j ctx auxJWT = ((None, None), cache j, [])"
  by (auto simp: jwtHelper_extract_def)

theorem extract_empty_token_witness:
  "jwtHelper_extract (sampleLib 10 10) sampleHelper (Ctx 0) None = ((None, None), Some [], [])
   \<and> jwtHelper_extract (sampleLib 10 10) sampleHelper (Ctx 0)
        (Some \<lparr>Token = '''', KeySetId = ''ks1''\<rparr>) = ((None, None), Some [], [])"
  using extract_empty_token [of None "sampleLib 10 10" sampleHelper "Ctx 0"]
        extract_empty_token [of "Some \<lparr>Token = '''', KeySetId = ''ks1''\<rparr>"
          "sampleLib 10 10" sampleHelper "Ctx 0"]
  by (simp add: sampleHelper_def)

subsection \<open>Key set selection\<close>

text \<open>
  C1. With verification enabled and no cache hit (no key derived, or the probe missed),
  on a registry whose keys are distinct (a Go map): without a key set id in the
  request, \<^verbatim>\<open>extract\<close> goes on with the only key set when the registry holds exactly
  one, and otherwise (none, or two and more) returns \<^verbatim>\<open>errNoKeySetToVerify\<close>; with an
  id, it goes on with the key set of that id when the registry has it, and otherwise
  returns the key-set-not-found error for that id. Either failure returns a nil result
  and happens before any key set is resolved and before the token is parsed.
\<close>

theorem keyset_selection:
  assumes "verify j" and "Token a \<noteq> ''''" and "\<not> probeHit lib j (Token a)"
    and "distinct (map fst (keySets j))"
  shows "let r = jwtHelper_extract lib j ctx (Some a) in
     (KeySetId a = '''' \<and> card (dom (map_of (keySets j))) \<noteq> 1 \<longrightarrow>
        result_of r = None \<and> error_of r = Some errNoKeySetToVerify
        \<and> filter isKeySetCall (events_of r) = [] \<and> filter isParseCall (events_of r) = [])
   \<and> (KeySetId a = '''' \<and> card (dom (map_of (keySets j))) = 1 \<longrightarrow>
        (\<exists>i ks. keySets j = [(i, ks)] \<and> proceedsWith lib ctx a ks r))
   \<and> (KeySetId a \<noteq> '''' \<and> KeySetId a \<notin> dom (map_of (keySets j)) \<longrightarrow>
        result_of r = None \<and> error_of r = Some (ErrKeySetNotFound (KeySetId a))
        \<and> filter isKeySetCall (events_of r) = [] \<and> filter isParseCall (events_of r) = [])
   \<and> (KeySetId a \<noteq> '''' \<and> KeySetId a \<in> dom (map_of (keySets j)) \<longrightarrow>
        (\<exists>ks. map_of (keySets j) (KeySetId a) = Some ks \<and> proceedsWith lib ctx a ks r))"
proof -
  let ?r = "jwtHelper_extract lib j ctx (Some a)"
  note len = card_keys [OF assms(4)]
  have c1: "result_of ?r = None \<and> error_of ?r = Some errNoKeySetToVerify
        \<and> filter isKeySetCall (events_of ?r) = [] \<and> filter isParseCall (events_of ?r) = []"
    if "KeySetId a = ''''" and "card (dom (map_of (keySets j))) \<noteq> 1"
  proof -
    have "selectKeySet j a = Inl errNoKeySetToVerify"
      using that len by (simp add: selectKeySet_def)
    then show ?thesis by (rule extract_selection_fails [OF assms(2,1,3)])
  qed
  have c2: "\<exists>i ks. keySets j = [(i, ks)] \<and> proceedsWith lib ctx a ks ?r"
    if "KeySetId a = ''''" and "card (dom (map_of (keySets j))) = 1"
  proof -
    from that len have "length (keySets j) = Suc 0" by simp
    then obtain p where p: "keySets j = [p]" using length_one by blast
    then have "selectKeySet j a = Inr (snd p)"
      using that by (simp add: selectKeySet_def)
    then have "proceedsWith lib ctx a (snd p) ?r"
      by (rule extract_proceeds [OF assms(2,1,3)])
    with p show ?thesis by (cases p) auto
  qed
  have c3: "result_of ?r = None \<and> error_of ?r = Some (ErrKeySetNotFound (KeySetId a))
        \<and> filter isKeySetCall (events_of ?r) = [] \<and> filter isParseCall (events_of ?r) = []"
    if "KeySetId a \<noteq> ''''" and "KeySetId a \<notin> dom (map_of (keySets j))"
  proof -
    have "selectKeySet j a = Inl (ErrKeySetNotFound (KeySetId a))"
      using that by (auto simp: selectKeySet_def split: option.splits)
    then show ?thesis by (rule extract_selection_fails [OF assms(2,1,3)])
  qed
  have c4: "\<exists>ks. map_of (keySets j) (KeySetId a) = Some ks \<and> proceedsWith lib ctx a ks ?r"
    if "KeySetId a \<noteq> ''''" and "KeySetId a \<in> dom (map_of (keySets j))"
  proof -
    from that obtain ks where ks: "map_of (keySets j) (KeySetId a) = Some ks" by auto
    then have "selectKeySet j a = Inr ks"
      using that by (simp add: selectKeySet_def)
    then have "proceedsWith lib ctx a ks ?r"
      by (rule extract_proceeds [OF assms(2,1,3)])
    with ks show ?thesis by blast
  qed
  show ?thesis
    unfolding Let_def using c1 c2 c3 c4 by blast
qed


theorem keyset_selection_witness:
  "error_of (jwtHelper_extract (sampleLib 10 10) (sampleHelper\<lparr>keySets := []\<rparr>) (Ctx 0)
      (Some \<lparr>Token = ''h.p.sig'', KeySetId = ''''\<rparr>)) = Some errNoKeySetToVerify
   \<and> error_of (jwtHelper_extract (sampleLib 10 10)
        (sampleHelper\<lparr>keySets := [(''ks1'', RemoteKS ''https://keys''), (''ks2'', RemoteKS ''https://other'')]\<rparr>)
        (Ctx 0) (Some \<lparr>Token = ''h.p.sig'', KeySetId = ''''\<rparr>)) = Some errNoKeySetToVerify
   \<and> proceedsWith (sampleLib 10 10) (Ctx 0) \<lparr>Token = ''h.p.sig'', KeySetId = ''''\<rparr>
        (RemoteKS ''https://keys'')
        (jwtHelper_extract (sampleLib 10 10) (sampleHelper\<lparr>keySets := [(''ks1'', RemoteKS ''https://keys'')]\<rparr>)
           (Ctx 0) (Some \<lparr>Token = ''h.p.sig'', KeySetId = ''''\<rparr>))
   \<and> error_of (jwtHelper_extract (sampleLib 10 10)
        (sampleHelper\<lparr>keySets := [(''ks1'', RemoteKS ''https://keys''), (''ks2'', RemoteKS ''https://other'')]\<rparr>)
        (Ctx 0) (Some \<lparr>Token = ''h.p.sig'', KeySetId = ''nope''\<rparr>)) = Some (ErrKeySetNotFound ''nope'')
   \<and> proceedsWith (sampleLib 10 10) (Ctx 0) \<lparr>Token = ''h.p.sig'', KeySetId = ''ks2''\<rparr>
        (RemoteKS ''https://other'')
        (jwtHelper_extract (sampleLib 10 10)
           (sampleHelper\<lparr>keySets := [(''ks1'', RemoteKS ''https://keys''), (''ks2'', RemoteKS ''https://other'')]\<rparr>)
           (Ctx 0) (Some \<lparr>Token = ''h.p.sig'', KeySetId = ''ks2''\<rparr>))"
  using
    keyset_selection [of "sampleHelper\<lparr>keySets := []\<rparr>"
      "\<lparr>Token = ''h.p.sig'', KeySetId = ''''\<rparr>" "sampleLib 10 10" "Ctx 0"]
    keyset_selection [of "sampleHelper\<lparr>keySets := [(''ks1'', RemoteKS ''https://keys''), (''ks2'', RemoteKS ''https://other'')]\<rparr>"
      "\<lparr>Token = ''h.p.sig'', KeySetId = ''''\<rparr>" "sampleLib 10 10" "Ctx 0"]
    keyset_selection [of "sampleHelper\<lparr>keySets := [(''ks1'', RemoteKS ''https://keys'')]\<rparr>"
      "\<lparr>Token = ''h.p.sig'', KeySetId = ''''\<rparr>" "sampleLib 10 10" "Ctx 0"]
    keyset_selection [of "sampleHelper\<lparr>keySets := [(''ks1'', RemoteKS ''https://keys''), (''ks2'', RemoteKS ''https://other'')]\<rparr>"
      "\<lparr>Token = ''h.p.sig'', KeySetId = ''nope''\<rparr>" "sampleLib 10 10" "Ctx 0"]
    keyset_selection [of "sampleHelper\<lparr>keySets := [(''ks1'', RemoteKS ''https://keys''), (''ks2'', RemoteKS ''https://other'')]\<rparr>"
      "\<lparr>Token = ''h.p.sig'', KeySetId = ''ks2''\<rparr>" "sampleLib 10 10" "Ctx 0"]
  by (simp add: sample_no_hit Let_def) (simp add: sampleHelper_def)

subsection \<open>Skipped signature verification\<close>

text \<open>
  C2. When the signature is not verified, because verification is disabled or because
  the cache probe hit, \<^verbatim>\<open>extract\<close> still parses the token, once, with the options
  \<^verbatim>\<open>WithVerify(false)\<close> and \<^verbatim>\<open>WithValidate(true)\<close>. When that validating parse rejects
  the token, as it does for an expired or not yet valid one, the call returns the
  parser's error wrapped and a nil result; only when it accepts the token are claims
  returned. A cache hit does not bypass the validation.
\<close>

theorem skipped_verification_still_validates:
  assumes "Token a \<noteq> ''''" and "\<not> verify j \<or> probeHit lib j (Token a)"
  shows "let r = jwtHelper_extract lib j ctx (Some a) in
     filter isParseCall (events_of r)
       = [ParseCall (Token a) [WithVerify False, WithValidate True]]
     \<and> (case ParseString lib (Token a) [WithVerify False, WithValidate True] of
          Inl err \<Rightarrow> result_of r = None \<and> error_of r = Some (ErrParseJWT err)
        | Inr token \<Rightarrow>
            result_of r = Some (fst (iterate lib (Pairs token) Map.empty))
            \<and> error_of r = None)"
proof -
  let ?key = "cacheKey_of j (Token a)"
  let ?j = "j\<lparr>cache := fst (afterProbe lib j ?key)\<rparr>"
  have k: "?key \<noteq> '''' \<longrightarrow> cache ?j \<noteq> None"
    using afterProbe_cache_Some [of j "Token a" lib] by simp
  show ?thesis
    using afterProbe_events [of lib j ?key]
      doExtract_events [of isParseCall lib ?j ctx a "[WithVerify False, WithValidate True]" ?key]
      doExtract_outcome [OF k, of lib ctx a "[WithVerify False, WithValidate True]"]
    by (simp add: extract_skip [OF assms] ret_defs split_beta Let_def split: sum.splits)
qed

theorem skipped_verification_still_validates_witness:
  "error_of (jwtHelper_extract (sampleLib 1000 1000) (sampleHelper\<lparr>cache := Some [(''.sig'', 5)]\<rparr>)
      (Ctx 0) (Some \<lparr>Token = ''h.p.sig'', KeySetId = ''''\<rparr>))
     = Some (ErrParseJWT (ExternalError ''exp not satisfied''))
   \<and> error_of (jwtHelper_extract (sampleLib 1000 1000) \<lparr>keySets = [], cache = None, verify = False\<rparr>
      (Ctx 0) (Some \<lparr>Token = ''h.p.sig'', KeySetId = ''''\<rparr>))
     = Some (ErrParseJWT (ExternalError ''exp not satisfied''))
   \<and> error_of (jwtHelper_extract (sampleLib 10 10) (sampleHelper\<lparr>cache := Some [(''.sig'', 5)]\<rparr>)
      (Ctx 0) (Some \<lparr>Token = ''h.p.sig'', KeySetId = ''''\<rparr>)) = None"
  using
    skipped_verification_still_validates [of "\<lparr>Token = ''h.p.sig'', KeySetId = ''''\<rparr>"
      "sampleHelper\<lparr>cache := Some [(''.sig'', 5)]\<rparr>" "sampleLib 1000 1000" "Ctx 0"]
    skipped_verification_still_validates [of "\<lparr>Token = ''h.p.sig'', KeySetId = ''''\<rparr>"
      "\<lparr>keySets = [], cache = None, verify = False\<rparr>" "sampleLib 1000 1000" "Ctx 0"]
    skipped_verification_still_validates [of "\<lparr>Token = ''h.p.sig'', KeySetId = ''''\<rparr>"
      "sampleHelper\<lparr>cache := Some [(''.sig'', 5)]\<rparr>" "sampleLib 10 10" "Ctx 0"]
  by (simp add: sample_hit Let_def sampleLib_sel sampleParse_def sampleToken_def zeroTime_def)

subsection \<open>Parse failures\<close>

text \<open>
  C6. An error is never returned together with a claims mapping, and a call that returns
  an error has made no cache insertion. When the parse of the token fails (whatever
  the options the run parsed with), the call returns a nil result and the parser's
  error wrapped; the failed parse is the last thing the run does, nothing is inserted
  into the cache, and the cache is as the probe left it.
\<close>

theorem parse_failure_aborts:
  "let r = jwtHelper_extract lib j ctx auxJWT in
     (error_of r \<noteq> None \<longrightarrow>
        result_of r = None \<and> filter isCacheSet (events_of r) = [])
     \<and> (auxJWT = Some a \<and> ParseCall (Token a) opts \<in> set (events_of r)
          \<and> ParseString lib (Token a) opts = Inl err \<longrightarrow>
        result_of r = None \<and> error_of r = Some (ErrParseJWT err)
        \<and> filter isCacheSet (events_of r) = []
        \<and> last (events_of r) = ParseCall (Token a) opts
        \<and> cache_of r = fst (afterProbe lib j (cacheKey_of j (Token a))))"
proof -
  let ?r = "jwtHelper_extract lib j ctx auxJWT"
  have p2: "result_of ?r = None \<and> error_of ?r = Some (ErrParseJWT err)
        \<and> filter isCacheSet (events_of ?r) = []
        \<and> last (events_of ?r) = ParseCall (Token a) opts
        \<and> cache_of ?r = fst (afterProbe lib j (cacheKey_of j (Token a)))"
    if aux: "auxJWT = Some a" and mem: "ParseCall (Token a) opts \<in> set (events_of ?r)"
      and fail: "ParseString lib (Token a) opts = Inl err"
  proof -
    from extract_parse_call [of "Token a" opts lib j ctx a] mem aux
    obtain ev1 where ev1: "filter isCacheSet ev1 = []"
      and r: "jwtHelper_extract lib j ctx (Some a) =
              (case doExtract lib (j\<lparr>cache := fst (afterProbe lib j (cacheKey_of j (Token a)))\<rparr>)
                      ctx a opts (cacheKey_of j (Token a)) of
                 (r, c2, ev2) \<Rightarrow> (r, c2, ev1 @ ev2))"
      by auto
    show ?thesis
      using ev1 by (simp add: aux r doExtract_parse_failed [OF fail] ret_defs)
  qed
  have p1: "error_of ?r \<noteq> None \<longrightarrow>
        result_of ?r = None \<and> filter isCacheSet (events_of ?r) = []"
    by (rule extract_error_no_result)
  from p2 have p2': "auxJWT = Some a \<and> ParseCall (Token a) opts \<in> set (events_of ?r)
          \<and> ParseString lib (Token a) opts = Inl err \<longrightarrow>
        result_of ?r = None \<and> error_of ?r = Some (ErrParseJWT err)
        \<and> filter isCacheSet (events_of ?r) = []
        \<and> last (events_of ?r) = ParseCall (Token a) opts
        \<and> cache_of ?r = fst (afterProbe lib j (cacheKey_of j (Token a)))"
    by (intro impI) (elim conjE)
  show ?thesis
    unfolding Let_def using p1 p2' by (rule conjI)
qed

theorem parse_failure_aborts_witness:
  "result_of (jwtHelper_extract (sampleLib 1000 1000) sampleHelper (Ctx 0)
      (Some \<lparr>Token = ''h.p.sig'', KeySetId = ''''\<rparr>)) = None
   \<and> error_of (jwtHelper_extract (sampleLib 1000 1000) sampleHelper (Ctx 0)
      (Some \<lparr>Token = ''h.p.sig'', KeySetId = ''''\<rparr>))
       = Some (ErrParseJWT (ExternalError ''exp not satisfied''))
   \<and> filter isCacheSet (events_of (jwtHelper_extract (sampleLib 1000 1000) sampleHelper (Ctx 0)
      (Some \<lparr>Token = ''h.p.sig'', KeySetId = ''''\<rparr>))) = []
   \<and> last (events_of (jwtHelper_extract (sampleLib 1000 1000) sampleHelper (Ctx 0)
      (Some \<lparr>Token = ''h.p.sig'', KeySetId = ''''\<rparr>)))
       = ParseCall ''h.p.sig'' [WithKeySet (JwkSet ''K''), WithValidate True]"
  using parse_failure_aborts [of "sampleLib 1000 1000" sampleHelper "Ctx 0"
      "Some \<lparr>Token = ''h.p.sig'', KeySetId = ''''\<rparr>" "\<lparr>Token = ''h.p.sig'', KeySetId = ''''\<rparr>"
      "[WithKeySet (JwkSet ''K''), WithValidate True]" "ExternalError ''exp not satisfied''"]
  by (simp add: Let_def sample_run_expired ret_defs sampleLib_sel sampleParse_def sampleToken_def
        zeroTime_def)

subsection \<open>Cache hits and key set resolution\<close>

text \<open>
  C10. When the cache probe hits, no key set is resolved and neither selection error is
  returned: the outcome is the same whatever the registry holds and whatever key set
  id the request names, so the call can succeed with an id that names no configured
  key set. A selection error (\<^verbatim>\<open>errNoKeySetToVerify\<close> or key set not found) is
  returned only by calls with verification enabled and without a cache hit (the probe
  missed, or no key was derived).
\<close>

theorem cache_hit_skips_keyset_resolution:
  assumes "Token a \<noteq> ''''"
  shows "let r = jwtHelper_extract lib j ctx (Some a) in
     (verify j \<and> probeHit lib j (Token a) \<longrightarrow>
        filter isKeySetCall (events_of r) = []
        \<and> \<not> isSelectionError (error_of r)
        \<and> r = jwtHelper_extract lib (j\<lparr>keySets := m\<rparr>) ctx (Some (a\<lparr>KeySetId := i\<rparr>)))
     \<and> (isSelectionError (error_of r) \<longrightarrow> verify j \<and> \<not> probeHit lib j (Token a))"
proof -
  let ?r = "jwtHelper_extract lib j ctx (Some a)"
  let ?key = "cacheKey_of j (Token a)"
  let ?j = "j\<lparr>cache := fst (afterProbe lib j ?key)\<rparr>"
  have skip: "filter isKeySetCall (events_of ?r) = [] \<and> \<not> isSelectionError (error_of ?r)"
    if s: "\<not> verify j \<or> probeHit lib j (Token a)"
    using afterProbe_events [of lib j ?key]
      doExtract_events [of isKeySetCall lib ?j ctx a "[WithVerify False, WithValidate True]" ?key]
      doExtract_not_selection_error [of lib ?j ctx a "[WithVerify False, WithValidate True]" ?key]
    by (simp add: extract_skip [OF assms s] ret_defs split_beta split: sum.splits)
  have same: "?r = jwtHelper_extract lib (j\<lparr>keySets := m\<rparr>) ctx (Some (a\<lparr>KeySetId := i\<rparr>))"
    if v: "verify j" and h: "probeHit lib j (Token a)"
  proof -
    have h': "\<not> verify (j\<lparr>keySets := m\<rparr>) \<or> probeHit lib (j\<lparr>keySets := m\<rparr>) (Token (a\<lparr>KeySetId := i\<rparr>))"
      using h by (simp add: keySets_update_irrelevant)
    have t': "Token (a\<lparr>KeySetId := i\<rparr>) \<noteq> ''''" using assms by simp
    have d: "doExtract lib (j\<lparr>keySets := m, cache := c\<rparr>) ctx (a\<lparr>KeySetId := i\<rparr>) opts k
              = doExtract lib (j\<lparr>cache := c\<rparr>) ctx a opts k" for c opts k
      by (simp add: doExtract_def Let_def split: sum.splits option.splits prod.splits)
    show ?thesis
      using h v
      by (simp add: extract_skip [OF assms, of j lib] extract_skip [OF t' h'] d
            keySets_update_irrelevant)
  qed
  show ?thesis
    unfolding Let_def using skip same by blast
qed

theorem cache_hit_skips_keyset_resolution_witness:
  "map_of (keySets (sampleHelper\<lparr>cache := Some [(''.sig'', 5)]\<rparr>)) ''nope'' = None
   \<and> error_of (jwtHelper_extract (sampleLib 10 10) (sampleHelper\<lparr>cache := Some [(''.sig'', 5)]\<rparr>)
        (Ctx 0) (Some \<lparr>Token = ''h.p.sig'', KeySetId = ''nope''\<rparr>)) = None
   \<and> result_of (jwtHelper_extract (sampleLib 10 10) (sampleHelper\<lparr>cache := Some [(''.sig'', 5)]\<rparr>)
        (Ctx 0) (Some \<lparr>Token = ''h.p.sig'', KeySetId = ''nope''\<rparr>))
       = Some [''sub'' \<mapsto> PbString ''u1'']
   \<and> filter isKeySetCall (events_of (jwtHelper_extract (sampleLib 10 10)
        (sampleHelper\<lparr>cache := Some [(''.sig'', 5)]\<rparr>)
        (Ctx 0) (Some \<lparr>Token = ''h.p.sig'', KeySetId = ''nope''\<rparr>))) = []
   \<and> jwtHelper_extract (sampleLib 10 10) (sampleHelper\<lparr>cache := Some [(''.sig'', 5)]\<rparr>)
        (Ctx 0) (Some \<lparr>Token = ''h.p.sig'', KeySetId = ''nope''\<rparr>)
       = jwtHelper_extract (sampleLib 10 10) (sampleHelper\<lparr>cache := Some [(''.sig'', 5)], keySets := []\<rparr>)
        (Ctx 0) (Some \<lparr>Token = ''h.p.sig'', KeySetId = ''''\<rparr>)
   \<and> error_of (jwtHelper_extract (sampleLib 10 10) sampleHelper (Ctx 0)
        (Some \<lparr>Token = ''h.p.sig'', KeySetId = ''nope''\<rparr>)) = Some (ErrKeySetNotFound ''nope'')
   \<and> \<not> probeHit (sampleLib 10 10) sampleHelper ''h.p.sig''"
proof -
  let ?a = "\<lparr>Token = ''h.p.sig'', KeySetId = ''nope''\<rparr>"
  let ?j = "sampleHelper\<lparr>cache := Some [(''.sig'', 5)]\<rparr>"
  have t: "Token ?a \<noteq> ''''" by simp
  have v: "verify ?j" by (simp add: sampleHelper_def)
  have h: "probeHit (sampleLib 10 10) ?j (Token ?a)" by (simp add: sample_hit)
  have c1: "map_of (keySets ?j) ''nope'' = None" by (simp add: sampleHelper_def)
  have c2: "error_of (jwtHelper_extract (sampleLib 10 10) ?j (Ctx 0) (Some ?a)) = None"
    and c3: "result_of (jwtHelper_extract (sampleLib 10 10) ?j (Ctx 0) (Some ?a))
       = Some [''sub'' \<mapsto> PbString ''u1'']"
    by (simp_all add: sample_run_hit ret_defs)
  have c6: "error_of (jwtHelper_extract (sampleLib 10 10) sampleHelper (Ctx 0) (Some ?a))
       = Some (ErrKeySetNotFound ''nope'')"
    by (simp add: sample_run_not_found ret_defs)
  from cache_hit_skips_keyset_resolution [OF t, of "sampleLib 10 10" ?j "Ctx 0" "[]" "''''"] v h
  have c4: "filter isKeySetCall (events_of (jwtHelper_extract (sampleLib 10 10) ?j (Ctx 0) (Some ?a))) = []"
    and c5: "jwtHelper_extract (sampleLib 10 10) ?j (Ctx 0) (Some ?a)
       = jwtHelper_extract (sampleLib 10 10) (?j\<lparr>keySets := []\<rparr>) (Ctx 0) (Some (?a\<lparr>KeySetId := ''''\<rparr>))"
    unfolding Let_def by blast+
  from cache_hit_skips_keyset_resolution [OF t, of "sampleLib 10 10" sampleHelper "Ctx 0" "[]" "''''"] c6
  have c7: "\<not> probeHit (sampleLib 10 10) sampleHelper ''h.p.sig''"
    unfolding Let_def by simp
  from c5 have c5': "jwtHelper_extract (sampleLib 10 10) ?j (Ctx 0) (Some ?a)
       = jwtHelper_extract (sampleLib 10 10) (sampleHelper\<lparr>cache := Some [(''.sig'', 5)], keySets := []\<rparr>)
           (Ctx 0) (Some \<lparr>Token = ''h.p.sig'', KeySetId = ''''\<rparr>)"
    by simp
  show ?thesis
    using c1 c2 c3 c4 c5' c6 c7 by (intro conjI)
qed

subsection \<open>Local key sets\<close>

text \<open>
  C8. \<^verbatim>\<open>newLocalKeySet\<close> always returns a (non-nil) key set, whatever fails while it
  decodes, reads or parses the key material, and that key set's \<^verbatim>\<open>keySet\<close> method
  returns the same result on every call: the result does not depend on the context of
  the call or on what the packages would answer at the time of the call, and it is the
  outcome of the construction, namely the base64 error, the key parsing error or the
  file reading error wrapped, or the key material parsed at construction.
\<close>

theorem local_keyset_replays_construction:
  "newLocalKeySet lib src \<noteq> None
   \<and> localKeySet_keySet (newLocalKeySet lib src) ctx
       = localKeySet_keySet (newLocalKeySet lib src) ctx'
   \<and> keySet_keySet lib' (LocalKS (newLocalKeySet lib src)) ctx
       = localKeySet_keySet (newLocalKeySet lib src) ctx'
   \<and> localKeySet_keySet (newLocalKeySet lib src) ctx =
       (if Data src \<noteq> '''' then
          (case DecodeString lib (Data src) of
             Inl err \<Rightarrow> Inl (ErrBase64Decode err)
           | Inr kbytes \<Rightarrow>
               (case jwk_Parse lib kbytes (PEM src) of
                  Inl err \<Rightarrow> Inl (ErrParseKeyData err)
                | Inr ks \<Rightarrow> Inr ks))
        else
          (case jwk_ReadFile lib (File src) (PEM src) of
             Inl err \<Rightarrow> Inl (ErrReadKeySet (File src) err)
           | Inr ks \<Rightarrow> Inr ks))"
  by (simp add: newLocalKeySet_def localKeySet_keySet_def keySet_keySet_def split: sum.splits)

theorem local_keyset_replays_construction_witness:
  "localKeySet_keySet (newLocalKeySet (sampleLib 0 0) \<lparr>Data = ''!'', File = '''', PEM = False\<rparr>) (Ctx 1)
     = Inl (ErrBase64Decode (ExternalError ''illegal base64 data''))
   \<and> localKeySet_keySet (newLocalKeySet (sampleLib 0 0) \<lparr>Data = ''!'', File = '''', PEM = False\<rparr>) (Ctx 1)
     = localKeySet_keySet (newLocalKeySet (sampleLib 0 0) \<lparr>Data = ''!'', File = '''', PEM = False\<rparr>) (Ctx 2)
   \<and> localKeySet_keySet (newLocalKeySet (sampleLib 0 0) \<lparr>Data = ''eA=='', File = '''', PEM = False\<rparr>) (Ctx 1)
     = Inl (ErrParseKeyData (ExternalError ''failed to parse''))
   \<and> localKeySet_keySet (newLocalKeySet (sampleLib 0 0) \<lparr>Data = ''S0s='', File = '''', PEM = False\<rparr>) (Ctx 1)
     = Inr (JwkSet ''K'')
   \<and> localKeySet_keySet (newLocalKeySet (sampleLib 0 0) \<lparr>Data = '''', File = ''missing.json'', PEM = True\<rparr>) (Ctx 1)
     = Inl (ErrReadKeySet ''missing.json'' (ExternalError ''no such file''))
   \<and> localKeySet_keySet (newLocalKeySet (sampleLib 0 0) \<lparr>Data = '''', File = ''keys.json'', PEM = True\<rparr>) (Ctx 1)
     = Inr (JwkSet ''K'')"
proof -
  note t = local_keyset_replays_construction [of "sampleLib 0 0" _ "Ctx 1" "Ctx 2" "sampleLib 0 0"]
  note sel = sampleLib_sel
  have a: "localKeySet_keySet (newLocalKeySet (sampleLib 0 0) \<lparr>Data = ''!'', File = '''', PEM = False\<rparr>) (Ctx 1)
     = Inl (ErrBase64Decode (ExternalError ''illegal base64 data''))"
    using t [of "\<lparr>Data = ''!'', File = '''', PEM = False\<rparr>"] by (auto simp: sel)
  have b: "localKeySet_keySet (newLocalKeySet (sampleLib 0 0) \<lparr>Data = ''!'', File = '''', PEM = False\<rparr>) (Ctx 1)
     = localKeySet_keySet (newLocalKeySet (sampleLib 0 0) \<lparr>Data = ''!'', File = '''', PEM = False\<rparr>) (Ctx 2)"
    using t [of "\<lparr>Data = ''!'', File = '''', PEM = False\<rparr>"] by blast
  have c: "localKeySet_keySet (newLocalKeySet (sampleLib 0 0) \<lparr>Data = ''eA=='', File = '''', PEM = False\<rparr>) (Ctx 1)
     = Inl (ErrParseKeyData (ExternalError ''failed to parse''))"
    using t [of "\<lparr>Data = ''eA=='', File = '''', PEM = False\<rparr>"] by (auto simp: sel)
  have d: "localKeySet_keySet (newLocalKeySet (sampleLib 0 0) \<lparr>Data = ''S0s='', File = '''', PEM = False\<rparr>) (Ctx 1)
     = Inr (JwkSet ''K'')"
    using t [of "\<lparr>Data = ''S0s='', File = '''', PEM = False\<rparr>"] by (auto simp: sel)
  have e: "localKeySet_keySet (newLocalKeySet (sampleLib 0 0) \<lparr>Data = '''', File = ''missing.json'', PEM = True\<rparr>) (Ctx 1)
     = Inl (ErrReadKeySet ''missing.json'' (ExternalError ''no such file''))"
    using t [of "\<lparr>Data = '''', File = ''missing.json'', PEM = True\<rparr>"] by (auto simp: sel)
  have f: "localKeySet_keySet (newLocalKeySet (sampleLib 0 0) \<lparr>Data = '''', File = ''keys.json'', PEM = True\<rparr>) (Ctx 1)
     = Inr (JwkSet ''K'')"
    using t [of "\<lparr>Data = '''', File = ''keys.json'', PEM = True\<rparr>"] by (auto simp: sel)
  show ?thesis
    using a b c d e f by (intro conjI)
qed

subsection \<open>No cache\<close>

text \<open>
  C9. When the configuration disables verification, or its cache size is not positive,
  \<^verbatim>\<open>newJWTHelper\<close> builds a helper without a cache; on that helper no token yields a
  cache key, and a call of \<^verbatim>\<open>extract\<close> makes no cache lookup and no cache insertion, and
  leaves the cache nil.
\<close>

theorem no_cache_no_cache_traffic:
  assumes "DisableVerification cf \<or> CacheSize cf \<le> 0"
  shows "let j = fst (newJWTHelper lib (Some cf)); r = jwtHelper_extract lib' j ctx auxJWT in
     cache j = None \<and> cacheKey_of j t = ''''
     \<and> filter isCacheOp (events_of r) = [] \<and> cache_of r = None"
  using newJWTHelper_no_cache [OF assms, of lib]
    extract_without_cache [of "fst (newJWTHelper lib (Some cf))" lib' ctx auxJWT]
    cacheKey_of_nil [of "fst (newJWTHelper lib (Some cf))" t]
  by (simp add: Let_def)

theorem no_cache_no_cache_traffic_witness:
  "cache (fst (newJWTHelper (sampleLib 10 10) (Some (sampleConf True 256)))) = None
   \<and> filter isCacheOp (events_of (jwtHelper_extract (sampleLib 10 10)
        (fst (newJWTHelper (sampleLib 10 10) (Some (sampleConf True 256)))) (Ctx 0)
        (Some \<lparr>Token = ''h.p.sig'', KeySetId = ''ks1''\<rparr>))) = []
   \<and> cache (fst (newJWTHelper (sampleLib 10 10) (Some (sampleConf False 0)))) = None
   \<and> filter isCacheOp (events_of (jwtHelper_extract (sampleLib 10 10)
        (fst (newJWTHelper (sampleLib 10 10) (Some (sampleConf False 0)))) (Ctx 0)
        (Some \<lparr>Token = ''h.p.sig'', KeySetId = ''ks1''\<rparr>))) = []"
  using
    no_cache_no_cache_traffic [of "sampleConf True 256" "sampleLib 10 10" "sampleLib 10 10" "Ctx 0"
      "Some \<lparr>Token = ''h.p.sig'', KeySetId = ''ks1''\<rparr>" "''h.p.sig''"]
    no_cache_no_cache_traffic [of "sampleConf False 0" "sampleLib 10 10" "sampleLib 10 10" "Ctx 0"
      "Some \<lparr>Token = ''h.p.sig'', KeySetId = ''ks1''\<rparr>" "''h.p.sig''"]
  by (simp add: Let_def sampleConf_def)

subsection \<open>The time-to-live of a cache entry\<close>

text \<open>
  C5, as the code has it. A call that parsed the token successfully and had derived a
  cache key returns no error and makes exactly one insertion, under that key, with the
  time-to-live \<^verbatim>\<open>time.Until\<close> of the token's expiry when that is positive (the
  expiry minus the clock reading, capped at the largest Duration) and the default of ten
  minutes otherwise, that is when the token has no expiry and also when its expiry is
  not after the clock reading. The time-to-live is positive, and it does not exceed the
  remaining validity of the token whenever the expiry is after the clock reading.
\<close>

theorem cache_entry_ttl:
  assumes "ParseCall (Token a) opts \<in> set (events_of (jwtHelper_extract lib j ctx (Some a)))"
    and "ParseString lib (Token a) opts = Inr token"
    and "cacheKey_of j (Token a) \<noteq> ''''"
  shows "let r = jwtHelper_extract lib j ctx (Some a); ttl = cacheExpiry lib token in
       error_of r = None
     \<and> filter isCacheSet (events_of r) = [CacheSet (cacheKey_of j (Token a)) ttl]
     \<and> ttl = (if Now lib < Expiration token
              then min (Expiration token - Now lib) maxDuration
              else defaultCacheExpiry)
     \<and> 0 < ttl
     \<and> (Now lib < Expiration token \<longrightarrow> ttl \<le> Expiration token - Now lib)"
proof -
  let ?key = "cacheKey_of j (Token a)"
  let ?j = "j\<lparr>cache := fst (afterProbe lib j ?key)\<rparr>"
  from extract_parse_call [OF assms(1)]
  obtain ev1 where ev1: "filter isCacheSet ev1 = []"
    and r: "jwtHelper_extract lib j ctx (Some a) =
              (case doExtract lib ?j ctx a opts ?key of (r, c2, ev2) \<Rightarrow> (r, c2, ev1 @ ev2))"
    by auto
  have k: "cache ?j \<noteq> None"
    using afterProbe_cache_Some [OF assms(3), of lib] by simp
  then have k': "?key \<noteq> '''' \<longrightarrow> cache ?j \<noteq> None" by simp
  have e: "error_of (jwtHelper_extract lib j ctx (Some a)) = None"
    using doExtract_outcome [OF k', of lib ctx a opts] assms(2)
    by (simp add: r error_of_def split_beta)
  have s: "filter isCacheSet (events_of (jwtHelper_extract lib j ctx (Some a)))
             = [CacheSet ?key (cacheExpiry lib token)]"
    using doExtract_cache_sets [of lib ?j ctx a opts ?key] assms(2,3) k ev1
    by (simp add: r events_of_def split_beta)
  have p: "0 < cacheExpiry lib token"
    by (simp add: cacheExpiry_value defaultCacheExpiry_value maxDuration_def)
  have b: "Now lib < Expiration token \<longrightarrow> cacheExpiry lib token \<le> Expiration token - Now lib"
    by (simp add: cacheExpiry_value)
  show ?thesis
    unfolding Let_def using e s p b cacheExpiry_value [of lib token] by (intro conjI)
qed

theorem cache_entry_ttl_witness:
  "error_of (jwtHelper_extract (sampleLib 10 10) sampleHelper (Ctx 0)
      (Some \<lparr>Token = ''h.p.sig'', KeySetId = ''''\<rparr>)) = None
   \<and> filter isCacheSet (events_of (jwtHelper_extract (sampleLib 10 10) sampleHelper (Ctx 0)
      (Some \<lparr>Token = ''h.p.sig'', KeySetId = ''''\<rparr>))) = [CacheSet ''.sig'' 990]
   \<and> cacheExpiry (sampleLib 10 10) \<lparr>Expiration = 1000, Pairs = [(AString ''sub'', AString ''u1'')]\<rparr>
       = 990"
proof -
  let ?a = "\<lparr>Token = ''h.p.sig'', KeySetId = ''''\<rparr>"
  let ?opts = "[WithKeySet (JwkSet ''K''), WithValidate True]"
  let ?tok = "\<lparr>Expiration = 1000, Pairs = [(AString ''sub'', AString ''u1'')]\<rparr>"
  have h1: "ParseCall (Token ?a) ?opts
      \<in> set (events_of (jwtHelper_extract (sampleLib 10 10) sampleHelper (Ctx 0) (Some ?a)))"
    by (simp add: sample_run_ok events_of_def)
  have h2: "ParseString (sampleLib 10 10) (Token ?a) ?opts = Inr ?tok"
    by (simp add: sampleLib_sel sampleParse_def sampleToken_def zeroTime_def)
  have h3: "cacheKey_of sampleHelper (Token ?a) \<noteq> ''''"
    by (simp add: cacheKey_of_def sampleHelper_def)
  have k: "cacheKey_of sampleHelper ''h.p.sig'' = ''.sig''"
    by (simp add: cacheKey_of_def sampleHelper_def)
  have v: "cacheExpiry (sampleLib 10 10) ?tok = 990"
    by (simp add: cacheExpiry_value sampleLib_sel maxDuration_def)
  from cache_entry_ttl [OF h1 h2 h3] show ?thesis
    by (simp add: Let_def k v)
qed

text \<open>
  C5 as stated, with the time-to-live \<open>max (expiry - now) 0\<close> for a token that has an
  expiry, fails on two runs. In the first the parser reads the clock at 999, before the
  expiry 1000, and \<^verbatim>\<open>time.Until\<close> reads it at 1000: the entry gets the default ten
  minutes, not 0, and outlives the token. In the second the expiry is more than the
  largest Duration away and the time-to-live is that largest Duration.
\<close>

theorem cache_entry_ttl_counterexample:
  "ParseString (sampleLib 999 1000) ''h.p.sig'' [WithKeySet (JwkSet ''K''), WithValidate True]
     = Inr \<lparr>Expiration = 1000, Pairs = [(AString ''sub'', AString ''u1'')]\<rparr>
   \<and> Now (sampleLib 999 1000) = 1000
   \<and> jwtHelper_extract (sampleLib 999 1000) sampleHelper (Ctx 0)
        (Some \<lparr>Token = ''h.p.sig'', KeySetId = ''''\<rparr>)
      = ((Some [''sub'' \<mapsto> PbString ''u1''], None), Some [(''.sig'', 600000000000)],
         [CacheGet ''.sig'', MetricCacheMiss,
          KeySetCall (LocalKS (Some (\<lambda>_. Inr (JwkSet ''K'')))),
          ParseCall ''h.p.sig'' [WithKeySet (JwkSet ''K''), WithValidate True],
          CacheSet ''.sig'' 600000000000])
   \<and> (600000000000 :: int) \<noteq> max (1000 - 1000) 0
   \<and> (600000000000 :: int) > 1000 - 1000
   \<and> ParseString (sampleLib 10 10) ''h.r.far'' [WithKeySet (JwkSet ''K''), WithValidate True]
     = Inr \<lparr>Expiration = 2 ^ 64, Pairs = [(AString ''sub'', AString ''u2'')]\<rparr>
   \<and> filter isCacheSet (events_of (jwtHelper_extract (sampleLib 10 10) sampleHelper (Ctx 0)
        (Some \<lparr>Token = ''h.r.far'', KeySetId = ''''\<rparr>))) = [CacheSet ''.far'' (2 ^ 63 - 1)]
   \<and> (2 ^ 63 - 1 :: int) \<noteq> max (2 ^ 64 - 10) 0"
  by (simp add: sample_defs cacheExpiry_value maxDuration_def defaultCacheExpiry_value
        events_of_def)

subsection \<open>The claims mapping\<close>




subsection \<open>The cache key\<close>

text \<open>
  C4 does not hold of the code. The key is the token from its last dot on, the dot
  included (\<^verbatim>\<open>Token[lastIdx:]\<close>), so it is never the signature segment and never
  empty: for \<open>h.p.sig\<close> it is \<open>.sig\<close>, and for a token whose signature segment is
  empty, such as \<open>a.b.\<close>, it is \<open>.\<close>, and the cache is probed with it.
\<close>

theorem cache_key_keeps_separator:
  "cacheKey_of sampleHelper ''h.p.sig'' = ''.sig''
   \<and> cacheKey_of sampleHelper ''a.b.'' = ''.''
   \<and> jwtHelper_extract (sampleLib 10 10) sampleHelper (Ctx 0)
        (Some \<lparr>Token = ''a.b.'', KeySetId = ''''\<rparr>)
      = ((None, Some (ErrParseJWT (ExternalError ''invalid JWT''))), Some [],
         [CacheGet ''.'', MetricCacheMiss,
          KeySetCall (LocalKS (Some (\<lambda>_. Inr (JwkSet ''K'')))),
          ParseCall ''a.b.'' [WithKeySet (JwkSet ''K''), WithValidate True]])"
  by (simp add: sample_defs)

end
